theory Spec2Isabelle
  imports Main "HOL-Library.Multiset"
begin

section \<open>JSON values and Python exceptions\<close>

text \<open>
  A request body and a response body are JSON values. \<open>JObj\<close> is a Python dict, kept
  as an association list read by first match. \<open>JNum\<close> carries an integer; a float
  behaves like it wherever a handler subscripts a body or compares an entry with a str.
\<close>

datatype jvalue =
    JNull
  | JBool bool
  | JNum int
  | JStr string
  | JArr "jvalue list"
  | JObj "(string \<times> jvalue) list"

datatype py_error = KeyError | TypeError | IntegrityError | DBAPIError

text \<open>
  \<open>data[key]\<close> with a str key: a dict gives the entry or raises KeyError; a list,
  a str, a number, a bool and None raise TypeError.
\<close>

fun getitem :: "jvalue \<Rightarrow> string \<Rightarrow> py_error + jvalue" where
  "getitem (JObj kvs) k = (case map_of kvs k of None \<Rightarrow> Inl KeyError | Some v \<Rightarrow> Inr v)"
| "getitem JNull k = Inl TypeError"
| "getitem (JBool b) k = Inl TypeError"
| "getitem (JNum n) k = Inl TypeError"
| "getitem (JStr s) k = Inl TypeError"
| "getitem (JArr xs) k = Inl TypeError"

section \<open>Requests and responses\<close>

text \<open>
  The handlers run behind the auth gate, which has put the verified identity into
  \<open>request.user\<close>: \<open>user_email\<close> is \<open>request.user['email']\<close> and \<open>json\<close> is the
  parsed body \<open>request.json\<close>. A handler returns \<open>jsonify(body), status\<close>; a bare
  \<open>jsonify(body)\<close> has status 200.
\<close>

record request =
  user_email :: string
  json :: jvalue

record response =
  status :: int
  body :: jvalue

section \<open>The tables\<close>

text \<open>
  Modelled from the spec: the model classes (\<open>app/models\<close>) and the schema are
  declared outside \<open>app/routes/users.py\<close> and \<open>tests/utils.py\<close>, the two modules
  embedded here. The spec's data model gives \<open>User\<close> with primary key \<open>email\<close>; \<open>Wordset\<close>
  with \<open>wordset_id\<close> and \<open>description\<close>; \<open>Word\<close> with \<open>word_id\<close>, \<open>word\<close>,
  \<open>wordset_id\<close> (foreign key to Wordset), \<open>def1\<close>, \<open>def2\<close>; \<open>UserWord\<close> with the
  composite key \<open>user_id\<close> (referencing User.email) and \<open>word_id\<close> (referencing
  Word.word_id), \<open>is_included\<close> and \<open>recall_state\<close>. The schema of \<open>RecallHistory\<close> is
  not shown; the spec's dependency chain makes it a child of UserWord, so a row carries
  the key of the UserWord row it belongs to. Field names that two tables share are
  prefixed with the table.
\<close>

record User =
  email :: string

record Wordset =
  wordset_id :: int
  description :: string

record Word =
  word_id :: int
  word :: string
  word_wordset_id :: int
  def1 :: string
  def2 :: string

record UserWord =
  user_id :: string
  uw_word_id :: int
  is_included :: bool
  recall_state :: int

record RecallHistory =
  rh_user_id :: string
  rh_word_id :: int

datatype table = RecallHistoryT | UserWordT | WordT | WordsetT | UserT

text \<open>
  The write statements that have reached the database and the transaction ends, oldest
  first. A statement that raises is not recorded.
\<close>

datatype stmt =
    InsertUser string
  | UpdateUser string string
  | DeleteUser string
  | DeleteAll table
  | Commit
  | Rollback

record database =
  users :: "User list"
  wordsets :: "Wordset list"
  words :: "Word list"
  userwords :: "UserWord list"
  recall_history :: "RecallHistory list"
  statements :: "stmt list"

text \<open>The primary key of \<open>User\<close>: no two rows share an email.\<close>

definition primary_key_ok :: "database \<Rightarrow> bool" where
  "primary_key_ok d = distinct (map email (users d))"

section \<open>The ORM session\<close>

text \<open>
  Modelled from the spec: \<open>db\<close> is the ORM session object of the application, an
  object-relational unit of work buffering inserts, updates and deletes until commit.
  Uniqueness of \<open>User.email\<close> and referential integrity are delegated to the relational
  schema: a statement that would break either raises IntegrityError and changes nothing.
  Every request works in a session of its own, opened on the committed database.

  A buffered change is a row added, a row deleted, or a loaded row whose \<open>email\<close>
  attribute was assigned: \<open>EmailSet u v e\<close> keeps the row as loaded, the value \<open>v\<close>
  that was assigned, and the string \<open>e\<close> that the column stores for it.
\<close>

datatype change = Added User | EmailSet User jvalue string | Removed User

record session =
  tx :: database
  pending :: "change list"

definition new_session :: "database \<Rightarrow> session" where
  "new_session d = \<lparr>tx = d, pending = []\<rparr>"

text \<open>\<open>User.query.filter_by(email=e).first()\<close>\<close>

definition filter_by_email_first :: "string \<Rightarrow> database \<Rightarrow> User option" where
  "filter_by_email_first e d = find (\<lambda>u. email u = e) (users d)"

text \<open>\<open>db.session.get(User, e)\<close>: the row with that primary key, or None.\<close>

definition session_get :: "string \<Rightarrow> database \<Rightarrow> User option" where
  "session_get e d = find (\<lambda>u. email u = e) (users d)"

text \<open>\<open>User.query.all()\<close>\<close>

definition query_all :: "database \<Rightarrow> User list" where
  "query_all d = users d"

text \<open>\<open>db.session.add(u)\<close>, \<open>user.email = v\<close> on a loaded row, \<open>db.session.delete(u)\<close>\<close>

definition session_add :: "User \<Rightarrow> session \<Rightarrow> session" where
  "session_add u s = s\<lparr>pending := pending s @ [Added u]\<rparr>"

definition set_email :: "User \<Rightarrow> jvalue \<Rightarrow> string \<Rightarrow> session \<Rightarrow> session" where
  "set_email u v e s = s\<lparr>pending := pending s @ [EmailSet u v e]\<rparr>"

definition session_delete :: "User \<Rightarrow> session \<Rightarrow> session" where
  "session_delete u s = s\<lparr>pending := pending s @ [Removed u]\<rparr>"

text \<open>A UserWord row references the user with this email.\<close>

definition user_referenced :: "string \<Rightarrow> database \<Rightarrow> bool" where
  "user_referenced e d = list_ex (\<lambda>uw. user_id uw = e) (userwords d)"

text \<open>
  One buffered change becomes one statement. An attribute assigned the very value it
  was loaded with is no net change and emits nothing; any other assigned value, also
  one that the column stores as the same string, is sent as an UPDATE. The UPDATE is
  refused when it would give the row the key of another row.

  Modelled from the spec: its design note (c) has \<open>update_user\<close> change the
  primary-key email directly, which can orphan foreign-key references in other tables.
  So the UPDATE is not refused on account of UserWord rows that reference the user, and
  those rows keep the old email. A DELETE of a referenced row is refused, as the spec's
  invariant on deletion order has it.
\<close>

fun flush_change :: "change \<Rightarrow> database \<Rightarrow> py_error + database" where
  "flush_change (Added u) d =
     (if list_ex (\<lambda>r. email r = email u) (users d) then Inl IntegrityError
      else Inr (d\<lparr>users := users d @ [u],
                  statements := statements d @ [InsertUser (email u)]\<rparr>))"
| "flush_change (EmailSet u v e) d =
     (if v = JStr (email u) then Inr d
      else if e \<noteq> email u \<and> list_ex (\<lambda>r. email r = e) (users d)
        then Inl IntegrityError
      else Inr (d\<lparr>users := map (\<lambda>r. if email r = email u then r\<lparr>email := e\<rparr> else r) (users d),
                  statements := statements d @ [UpdateUser (email u) e]\<rparr>))"
| "flush_change (Removed u) d =
     (if user_referenced (email u) d then Inl IntegrityError
      else Inr (d\<lparr>users := filter (\<lambda>r. email r \<noteq> email u) (users d),
                  statements := statements d @ [DeleteUser (email u)]\<rparr>))"

fun flush :: "change list \<Rightarrow> database \<Rightarrow> py_error + database" where
  "flush [] d = Inr d"
| "flush (c # cs) d =
     (case flush_change c d of Inl err \<Rightarrow> Inl err | Inr d' \<Rightarrow> flush cs d')"

text \<open>\<open>db.session.commit()\<close>: flush what is pending, then commit the transaction.\<close>

definition session_commit :: "session \<Rightarrow> py_error + database" where
  "session_commit s =
     (case flush (pending s) (tx s) of
        Inl err \<Rightarrow> Inl err
      | Inr d \<Rightarrow> Inr (d\<lparr>statements := statements d @ [Commit]\<rparr>))"

text \<open>
  \<open>db.session.query(T).delete()\<close>: a bulk \<open>DELETE FROM T\<close>, sent at once inside the
  open transaction. It raises IntegrityError when a row of a child table still
  references a row of \<open>T\<close>.
\<close>

fun query_delete :: "table \<Rightarrow> session \<Rightarrow> py_error + session" where
  "query_delete RecallHistoryT s =
     Inr (s\<lparr>tx := (tx s)\<lparr>recall_history := [],
                          statements := statements (tx s) @ [DeleteAll RecallHistoryT]\<rparr>\<rparr>)"
| "query_delete UserWordT s =
     (if list_ex (\<lambda>rh. list_ex (\<lambda>uw. user_id uw = rh_user_id rh \<and> uw_word_id uw = rh_word_id rh)
                          (userwords (tx s))) (recall_history (tx s))
      then Inl IntegrityError
      else Inr (s\<lparr>tx := (tx s)\<lparr>userwords := [],
                               statements := statements (tx s) @ [DeleteAll UserWordT]\<rparr>\<rparr>))"
| "query_delete WordT s =
     (if list_ex (\<lambda>uw. list_ex (\<lambda>w. word_id w = uw_word_id uw) (words (tx s))) (userwords (tx s))
      then Inl IntegrityError
      else Inr (s\<lparr>tx := (tx s)\<lparr>words := [],
                               statements := statements (tx s) @ [DeleteAll WordT]\<rparr>\<rparr>))"
| "query_delete WordsetT s =
     (if list_ex (\<lambda>w. list_ex (\<lambda>ws. wordset_id ws = word_wordset_id w) (wordsets (tx s))) (words (tx s))
      then Inl IntegrityError
      else Inr (s\<lparr>tx := (tx s)\<lparr>wordsets := [],
                               statements := statements (tx s) @ [DeleteAll WordsetT]\<rparr>\<rparr>))"
| "query_delete UserT s =
     (if list_ex (\<lambda>uw. list_ex (\<lambda>u. email u = user_id uw) (users (tx s))) (userwords (tx s))
      then Inl IntegrityError
      else Inr (s\<lparr>tx := (tx s)\<lparr>users := [],
                               statements := statements (tx s) @ [DeleteAll UserT]\<rparr>\<rparr>))"

text \<open>Sequencing of calls that may raise: the first exception ends the block.\<close>

definition and_then :: "py_error + 'a \<Rightarrow> ('a \<Rightarrow> py_error + 'b) \<Rightarrow> py_error + 'b" where
  "and_then r f = (case r of Inl err \<Rightarrow> Inl err | Inr x \<Rightarrow> f x)"

section \<open>The access-validation helper\<close>

type_synonym access_check = "string \<Rightarrow> request \<Rightarrow> response option"

text \<open>
  Modelled from the spec: \<open>validate_user_access\<close> is imported from \<open>app/utils\<close>, a
  module outside the two embedded here. Given a target \<open>email\<close> path parameter and the authenticated
  context, it returns a rejection response (403) with a message body if they differ,
  else returns nothing (the signal to proceed). The text of the message is not given,
  so it is an argument.
\<close>

definition validate_user_access :: "string \<Rightarrow> access_check" where
  "validate_user_access msg path_email req =
     (if user_email req \<noteq> path_email
      then Some \<lparr>status = 403, body = JObj [(''message'', JStr msg)]\<rparr>
      else None)"

section \<open>The user handlers (app/routes/users.py)\<close>

type_synonym outcome = "(py_error + response) \<times> database"

text \<open>
  A handler takes the request and the committed database and gives what it returns or
  raises, with the database it leaves. The handlers of the identity-scoped routes take
  the imported access check as their first argument.

  \<open>create_user\<close>: a str never equals a value that is not a str, so a body whose
  \<open>email\<close> is not a str is answered like any other mismatch.
\<close>

definition create_user :: "request \<Rightarrow> database \<Rightarrow> outcome" where
  "create_user req d =
     (case getitem (json req) ''email'' of
        Inl err \<Rightarrow> (Inl err, d)
      | Inr v \<Rightarrow>
          (case v of
             JStr e \<Rightarrow>
               if user_email req \<noteq> e then
                 (Inr \<lparr>status = 403,
                       body = JObj [(''message'', JStr ''Unauthorized: You can only create yourself'')]\<rparr>, d)
               else
                 (case filter_by_email_first e d of
                    Some existing_user \<Rightarrow>
                      (Inr \<lparr>status = 200, body = JObj [(''message'', JStr ''User already exists'')]\<rparr>, d)
                  | None \<Rightarrow>
                      (case session_commit (session_add \<lparr>email = e\<rparr> (new_session d)) of
                         Inl err \<Rightarrow> (Inl err, d)
                       | Inr d' \<Rightarrow>
                           (Inr \<lparr>status = 201,
                                 body = JObj [(''message'', JStr ''User created successfully'')]\<rparr>, d')))
           | _ \<Rightarrow>
               (Inr \<lparr>status = 403,
                     body = JObj [(''message'', JStr ''Unauthorized: You can only create yourself'')]\<rparr>, d)))"

definition get_user :: "access_check \<Rightarrow> string \<Rightarrow> request \<Rightarrow> database \<Rightarrow> outcome" where
  "get_user validate path_email req d =
     (case validate path_email req of
        Some validation_response \<Rightarrow> (Inr validation_response, d)
      | None \<Rightarrow>
          (case session_get path_email d of
             None \<Rightarrow>
               (Inr \<lparr>status = 404,
                     body = JObj [(''message'', JStr ''User not found''), (''email'', JStr path_email)]\<rparr>, d)
           | Some user \<Rightarrow>
               (Inr \<lparr>status = 200, body = JObj [(''email'', JStr (email user))]\<rparr>, d)))"

text \<open>
  \<open>update_user\<close> assigns \<open>data['email']\<close> to the row's attribute whatever it is. A str
  is stored as it is. What the column type and the database driver make of any other
  value (an exception, or the string they store) is decided by the column declaration
  and the driver, outside this module, and is the argument \<open>bind\<close>.
\<close>

definition column_value :: "(jvalue \<Rightarrow> py_error + string) \<Rightarrow> jvalue \<Rightarrow> py_error + string" where
  "column_value bind v = (case v of JStr e \<Rightarrow> Inr e | _ \<Rightarrow> bind v)"

definition update_user ::
  "access_check \<Rightarrow> (jvalue \<Rightarrow> py_error + string) \<Rightarrow> string \<Rightarrow> request \<Rightarrow> database \<Rightarrow> outcome" where
  "update_user validate bind path_email req d =
     (case validate path_email req of
        Some validation_response \<Rightarrow> (Inr validation_response, d)
      | None \<Rightarrow>
          (case session_get path_email d of
             None \<Rightarrow>
               (Inr \<lparr>status = 404,
                     body = JObj [(''message'', JStr ''User not found''), (''email'', JStr path_email)]\<rparr>, d)
           | Some user \<Rightarrow>
               (case getitem (json req) ''email'' of
                  Inl err \<Rightarrow> (Inl err, d)
                | Inr v \<Rightarrow>
                    (case column_value bind v of
                       Inl err \<Rightarrow> (Inl err, d)
                     | Inr e \<Rightarrow>
                         (case session_commit (set_email user v e (new_session d)) of
                            Inl err \<Rightarrow> (Inl err, d)
                          | Inr d' \<Rightarrow>
                              (Inr \<lparr>status = 200,
                                    body = JObj [(''message'', JStr ''User updated successfully'')]\<rparr>,
                               d'))))))"

definition delete_user :: "access_check \<Rightarrow> string \<Rightarrow> request \<Rightarrow> database \<Rightarrow> outcome" where
  "delete_user validate path_email req d =
     (case validate path_email req of
        Some validation_response \<Rightarrow> (Inr validation_response, d)
      | None \<Rightarrow>
          (case session_get path_email d of
             None \<Rightarrow>
               (Inr \<lparr>status = 404,
                     body = JObj [(''message'', JStr ''User not found''), (''email'', JStr path_email)]\<rparr>, d)
           | Some user \<Rightarrow>
               (case session_commit (session_delete user (new_session d)) of
                  Inl err \<Rightarrow> (Inl err, d)
                | Inr d' \<Rightarrow>
                    (Inr \<lparr>status = 200,
                          body = JObj [(''message'', JStr ''User deleted successfully'')]\<rparr>, d'))))"

definition get_users :: "request \<Rightarrow> database \<Rightarrow> outcome" where
  "get_users req d =
     (Inr \<lparr>status = 200, body = JArr (map (\<lambda>user. JObj [(''email'', JStr (email user))]) (query_all d))\<rparr>, d)"

section \<open>Test cleanup (tests/utils.py)\<close>

text \<open>
  \<open>TestUtils.clear_database\<close>: five bulk deletes and one commit inside \<open>try\<close>; on any
  exception the handler rolls the transaction back and raises again, which leaves the
  tables as they were.
\<close>

definition clear_database :: "database \<Rightarrow> (py_error + unit) \<times> database" where
  "clear_database d =
     (case and_then (query_delete RecallHistoryT (new_session d)) (\<lambda>s1.
           and_then (query_delete UserWordT s1) (\<lambda>s2.
           and_then (query_delete WordT s2) (\<lambda>s3.
           and_then (query_delete WordsetT s3) (\<lambda>s4.
           and_then (query_delete UserT s4) session_commit)))) of
        Inr d' \<Rightarrow> (Inr (), d')
      | Inl err \<Rightarrow> (Inl err, d\<lparr>statements := statements d @ [Rollback]\<rparr>))"

section \<open>Sample data\<close>

text \<open>
  Concrete inputs on which the results below are run: two identities, requests as the
  auth gate hands them to a handler, and database states. \<open>fixture_chain\<close> is what
  \<open>TestUtils.create_test_userword\<close> leaves, with one recall-history row for its
  UserWord row.
\<close>

definition alice :: string where
  "alice = ''alice@example.com''"

definition bob :: string where
  "bob = ''bob@example.com''"

definition forbidden :: string where
  "forbidden = ''Forbidden''"

text \<open>
  A sample of what the driver and the database make of a value that is not a str: a
  number is stored as its decimal text, a bool as \<open>1\<close> or \<open>0\<close>; None is refused by the
  key column, and a list or a dict is no parameter the driver can send.
\<close>

definition digit :: "nat \<Rightarrow> char" where
  "digit n = ''0123456789'' ! n"

fun decimal :: "nat \<Rightarrow> string" where
  "decimal n = (if n < 10 then [digit n] else decimal (n div 10) @ [digit (n mod 10)])"

definition int_text :: "int \<Rightarrow> string" where
  "int_text i = (if i < 0 then CHR ''-'' # decimal (nat (- i)) else decimal (nat i))"

fun driver_bind :: "jvalue \<Rightarrow> py_error + string" where
  "driver_bind (JStr s) = Inr s"
| "driver_bind (JNum n) = Inr (int_text n)"
| "driver_bind (JBool b) = Inr (if b then ''1'' else ''0'')"
| "driver_bind JNull = Inl IntegrityError"
| "driver_bind (JArr xs) = Inl DBAPIError"
| "driver_bind (JObj kvs) = Inl DBAPIError"

definition alice_signup :: request where
  "alice_signup = \<lparr>user_email = alice, json = JObj [(''email'', JStr alice)]\<rparr>"

definition alice_claims_bob :: request where
  "alice_claims_bob = \<lparr>user_email = alice, json = JObj [(''email'', JStr bob)]\<rparr>"

definition alice_renames :: request where
  "alice_renames = \<lparr>user_email = alice, json = JObj [(''email'', JStr ''alice@example.org'')]\<rparr>"

definition alice_sends_number :: request where
  "alice_sends_number = \<lparr>user_email = alice, json = JObj [(''email'', JNum 5)]\<rparr>"

definition alice_empty_body :: request where
  "alice_empty_body = \<lparr>user_email = alice, json = JObj []\<rparr>"

definition empty_database :: database where
  "empty_database = \<lparr>users = [], wordsets = [], words = [], userwords = [],
     recall_history = [], statements = []\<rparr>"

definition alice_only :: database where
  "alice_only = empty_database\<lparr>users := [\<lparr>email = alice\<rparr>]\<rparr>"

definition two_users :: database where
  "two_users = empty_database\<lparr>users := [\<lparr>email = alice\<rparr>, \<lparr>email = bob\<rparr>]\<rparr>"

definition fixture_chain :: database where
  "fixture_chain =
     \<lparr>users = [\<lparr>email = ''test@example.com''\<rparr>],
      wordsets = [\<lparr>wordset_id = 1, description = ''Test Wordset''\<rparr>],
      words = [\<lparr>word_id = 1, word = ''Test Word'', word_wordset_id = 1,
                def1 = ''Definition 1'', def2 = ''Definition 2''\<rparr>],
      userwords = [\<lparr>user_id = ''test@example.com'', uw_word_id = 1, is_included = True,
                    recall_state = 1\<rparr>],
      recall_history = [\<lparr>rh_user_id = ''test@example.com'', rh_word_id = 1\<rparr>],
      statements = []\<rparr>"

lemmas sample_defs = alice_def bob_def forbidden_def alice_sends_number_def alice_signup_def
  alice_claims_bob_def alice_renames_def alice_empty_body_def empty_database_def alice_only_def
  two_users_def fixture_chain_def

section \<open>Lists and lookups\<close>

lemma find_None_list_ex: "find P xs = None \<longleftrightarrow> \<not> list_ex P xs"
  by (auto simp: find_None_iff list_ex_iff)

lemma find_Some_holds: "find P xs = Some x \<Longrightarrow> P x \<and> x \<in> set xs"
  by (induction xs) (auto split: if_splits)

lemma find_append_None: "find P xs = None \<Longrightarrow> find P (xs @ ys) = find P ys"
  by (induction xs) (auto split: if_splits)

lemma filter_none: "find P xs = None \<Longrightarrow> filter P xs = []"
  by (induction xs) (auto split: if_splits)

lemma distinct_key_count:
  "distinct (map f xs) \<Longrightarrow> x \<in> set xs \<Longrightarrow> length (filter (\<lambda>u. f u = f x) xs) = 1"
proof (induction xs)
  case Nil
  then show ?case by simp
next
  case (Cons y ys)
  show ?case
  proof (cases "f y = f x")
    case True
    with Cons.prems have "\<forall>u \<in> set ys. f u \<noteq> f x" by (auto simp: image_iff)
    then have "filter (\<lambda>u. f u = f x) ys = []" by (simp add: filter_empty_conv)
    with True show ?thesis by simp
  next
    case False
    with Cons show ?thesis by auto
  qed
qed

lemma distinct_rename:
  assumes "distinct (map f xs)" and "e \<notin> f ` set xs"
  shows "distinct (map (\<lambda>x. if f x = a then e else f x) xs)"
  using assms by (induction xs) (auto simp: image_iff)

lemma map_rename_same: "map (\<lambda>r. if email r = p then r\<lparr>email := p\<rparr> else r) xs = xs"
  by (induction xs) auto

text \<open>
  Subscripting raises exactly when the value is not a dict or is a dict without the key.
\<close>

lemma getitem_raises_iff:
  "(\<exists>err. getitem v k = Inl err) \<longleftrightarrow> (\<forall>kvs. v = JObj kvs \<longrightarrow> map_of kvs k = None)"
  by (cases v) (auto split: option.splits)

lemma getitem_error_kind:
  "getitem v k = Inl err \<Longrightarrow> err = (case v of JObj kvs \<Rightarrow> KeyError | _ \<Rightarrow> TypeError)"
  by (cases v) (auto split: option.splits)

section \<open>What a commit does after one buffered change\<close>

lemma commit_added:
  "session_commit (session_add u (new_session d)) =
     (if list_ex (\<lambda>r. email r = email u) (users d) then Inl IntegrityError
      else Inr (d\<lparr>users := users d @ [u],
                  statements := statements d @ [InsertUser (email u), Commit]\<rparr>))"
  by (simp add: session_commit_def session_add_def new_session_def)

lemma commit_email_set:
  "session_commit (set_email u v e (new_session d)) =
     (if v = JStr (email u) then Inr (d\<lparr>statements := statements d @ [Commit]\<rparr>)
      else if e \<noteq> email u \<and> list_ex (\<lambda>r. email r = e) (users d)
        then Inl IntegrityError
      else Inr (d\<lparr>users := map (\<lambda>r. if email r = email u then r\<lparr>email := e\<rparr> else r) (users d),
                  statements := statements d @ [UpdateUser (email u) e, Commit]\<rparr>))"
  by (simp add: session_commit_def set_email_def new_session_def)

lemma commit_removed:
  "session_commit (session_delete u (new_session d)) =
     (if user_referenced (email u) d then Inl IntegrityError
      else Inr (d\<lparr>users := filter (\<lambda>r. email r \<noteq> email u) (users d),
                  statements := statements d @ [DeleteUser (email u), Commit]\<rparr>))"
  by (simp add: session_commit_def session_delete_def new_session_def)

section \<open>The primary key is an invariant\<close>

lemma flush_change_primary_key:
  assumes "primary_key_ok d" and "flush_change c d = Inr d'"
  shows "primary_key_ok d'"
proof (cases c)
  case (Added u)
  with assms have fresh: "email u \<notin> email ` set (users d)"
    and d': "users d' = users d @ [u]"
    by (auto simp: list_ex_iff split: if_splits)
  with assms(1) show ?thesis
    by (simp add: primary_key_ok_def)
next
  case (EmailSet u v e)
  consider (same) "v = JStr (email u)"
    | (rebound) "v \<noteq> JStr (email u)" "e = email u"
    | (renamed) "v \<noteq> JStr (email u)" "e \<noteq> email u"
    by blast
  then show ?thesis
  proof cases
    case same
    with assms EmailSet show ?thesis by simp
  next
    case rebound
    with assms EmailSet have "users d' = users d"
      by (auto simp: map_rename_same)
    with assms(1) show ?thesis
      by (simp add: primary_key_ok_def)
  next
    case renamed
    with assms EmailSet have fresh: "e \<notin> email ` set (users d)"
      and d': "users d' = map (\<lambda>r. if email r = email u then r\<lparr>email := e\<rparr> else r) (users d)"
      by (auto simp: list_ex_iff split: if_splits)
    have "map email (users d') = map (\<lambda>r. if email r = email u then e else email r) (users d)"
      by (simp add: d' comp_def if_distrib cong: if_cong)
    with assms(1) fresh show ?thesis
      by (simp add: primary_key_ok_def distinct_rename)
  qed
next
  case (Removed u)
  with assms show ?thesis
    by (auto simp: primary_key_ok_def distinct_map_filter split: if_splits)
qed

lemma session_commit_primary_key:
  assumes "primary_key_ok d" and "session_commit \<lparr>tx = d, pending = [c]\<rparr> = Inr d'"
  shows "primary_key_ok d'"
proof -
  from assms(2) obtain d1 where "flush_change c d = Inr d1"
    and "d' = d1\<lparr>statements := statements d1 @ [Commit]\<rparr>"
    by (auto simp: session_commit_def split: sum.splits)
  with assms(1) flush_change_primary_key [of d c d1] show ?thesis
    by (simp add: primary_key_ok_def)
qed

lemma primary_key_ok_empty: "primary_key_ok empty_database"
  by (simp add: primary_key_ok_def empty_database_def)

lemma handlers_keep_primary_key:
  assumes "primary_key_ok d"
  shows "primary_key_ok (snd (create_user req d))"
    and "primary_key_ok (snd (get_user validate path_email req d))"
    and "primary_key_ok (snd (update_user validate bind path_email req d))"
    and "primary_key_ok (snd (delete_user validate path_email req d))"
    and "primary_key_ok (snd (get_users req d))"
  using assms session_commit_primary_key [of d]
  by (auto simp: create_user_def get_user_def update_user_def delete_user_def get_users_def
      session_add_def set_email_def session_delete_def new_session_def
      split: sum.splits option.splits jvalue.splits)

section \<open>Creating a user\<close>

lemma create_user_new:
  assumes "getitem (json req) ''email'' = Inr (JStr (user_email req))"
    and "filter_by_email_first (user_email req) d = None"
  shows "create_user req d =
     (Inr \<lparr>status = 201, body = JObj [(''message'', JStr ''User created successfully'')]\<rparr>,
      d\<lparr>users := users d @ [\<lparr>email = user_email req\<rparr>],
        statements := statements d @ [InsertUser (user_email req), Commit]\<rparr>)"
proof -
  from assms(2) have "\<not> list_ex (\<lambda>r. email r = user_email req) (users d)"
    by (simp add: filter_by_email_first_def find_None_list_ex)
  with assms show ?thesis
    by (simp add: create_user_def commit_added)
qed

lemma create_user_existing:
  assumes "getitem (json req) ''email'' = Inr (JStr (user_email req))"
    and "filter_by_email_first (user_email req) d = Some u"
  shows "create_user req d =
     (Inr \<lparr>status = 200, body = JObj [(''message'', JStr ''User already exists'')]\<rparr>, d)"
  using assms by (simp add: create_user_def)

text \<open>
  The access check comes first in the three identity-scoped handlers: whatever it
  returns is returned, before any row is looked up.
\<close>

lemma access_check_runs_first:
  assumes "validate path_email req = Some r"
  shows "get_user validate path_email req d = (Inr r, d)"
    and "update_user validate bind path_email req d = (Inr r, d)"
    and "delete_user validate path_email req d = (Inr r, d)"
  using assms by (simp_all add: get_user_def update_user_def delete_user_def)

section \<open>Results on the user handlers\<close>

text \<open>
  C1. For every request to \<open>get_user\<close>, \<open>update_user\<close> or \<open>delete_user\<close> where the
  authenticated identity's email differs from the \<open>email\<close> path parameter, the handler
  returns 403, whatever the database holds: the ownership check runs before the
  existence lookup. The check is the helper as the spec describes it.
\<close>

theorem ownership_mismatch_403:
  assumes "user_email req \<noteq> path_email"
  shows "get_user (validate_user_access msg) path_email req d =
           (Inr \<lparr>status = 403, body = JObj [(''message'', JStr msg)]\<rparr>, d)
       \<and> update_user (validate_user_access msg) bind path_email req d =
           (Inr \<lparr>status = 403, body = JObj [(''message'', JStr msg)]\<rparr>, d)
       \<and> delete_user (validate_user_access msg) path_email req d =
           (Inr \<lparr>status = 403, body = JObj [(''message'', JStr msg)]\<rparr>, d)"
  using assms by (simp add: get_user_def update_user_def delete_user_def validate_user_access_def)

theorem ownership_mismatch_403_witness:
  "user_email alice_signup \<noteq> bob
   \<and> session_get bob two_users \<noteq> None
   \<and> get_user (validate_user_access forbidden) bob alice_signup two_users =
       (Inr \<lparr>status = 403, body = JObj [(''message'', JStr forbidden)]\<rparr>, two_users)
   \<and> session_get bob empty_database = None
   \<and> delete_user (validate_user_access forbidden) bob alice_signup empty_database =
       (Inr \<lparr>status = 403, body = JObj [(''message'', JStr forbidden)]\<rparr>, empty_database)"
  using ownership_mismatch_403 [of alice_signup bob forbidden two_users driver_bind]
    ownership_mismatch_403 [of alice_signup bob forbidden empty_database driver_bind]
  by (simp add: sample_defs session_get_def)

text \<open>
  C2. For every authenticated \<open>create_user\<close> request whose body email equals the
  authenticated email: if no User row with that email exists, the handler inserts one,
  commits and returns 201; if one exists, it returns 200 with the message "User already
  exists" (a response, not an exception) and leaves the database as it is. Calling it a
  second time returns that 200 and inserts nothing, and in a table that respects the
  primary key exactly one row with that email remains.
\<close>

theorem create_user_idempotent:
  assumes body: "getitem (json req) ''email'' = Inr (JStr (user_email req))"
    and pk: "primary_key_ok d"
  shows "(filter_by_email_first (user_email req) d = None \<longrightarrow>
            create_user req d =
              (Inr \<lparr>status = 201, body = JObj [(''message'', JStr ''User created successfully'')]\<rparr>,
               d\<lparr>users := users d @ [\<lparr>email = user_email req\<rparr>],
                 statements := statements d @ [InsertUser (user_email req), Commit]\<rparr>))
       \<and> (filter_by_email_first (user_email req) d \<noteq> None \<longrightarrow>
            create_user req d =
              (Inr \<lparr>status = 200, body = JObj [(''message'', JStr ''User already exists'')]\<rparr>, d))
       \<and> create_user req (snd (create_user req d)) =
            (Inr \<lparr>status = 200, body = JObj [(''message'', JStr ''User already exists'')]\<rparr>,
             snd (create_user req d))
       \<and> length (filter (\<lambda>u. email u = user_email req) (users (snd (create_user req d)))) = 1"
proof (cases "filter_by_email_first (user_email req) d")
  case None
  let ?d' = "d\<lparr>users := users d @ [\<lparr>email = user_email req\<rparr>],
                statements := statements d @ [InsertUser (user_email req), Commit]\<rparr>"
  have first: "create_user req d =
      (Inr \<lparr>status = 201, body = JObj [(''message'', JStr ''User created successfully'')]\<rparr>, ?d')"
    using body None by (rule create_user_new)
  have found: "filter_by_email_first (user_email req) ?d' = Some \<lparr>email = user_email req\<rparr>"
    using None by (simp add: filter_by_email_first_def find_append_None)
  have second: "create_user req ?d' =
      (Inr \<lparr>status = 200, body = JObj [(''message'', JStr ''User already exists'')]\<rparr>, ?d')"
    using body found by (rule create_user_existing)
  have one: "length (filter (\<lambda>u. email u = user_email req) (users ?d')) = 1"
    using None by (simp add: filter_by_email_first_def filter_none)
  show ?thesis using None first second one by simp
next
  case (Some u)
  have same: "create_user req d =
      (Inr \<lparr>status = 200, body = JObj [(''message'', JStr ''User already exists'')]\<rparr>, d)"
    using body Some by (rule create_user_existing)
  from Some have u: "email u = user_email req" "u \<in> set (users d)"
    using find_Some_holds [of "\<lambda>u. email u = user_email req" "users d" u]
    by (simp_all add: filter_by_email_first_def)
  have "length (filter (\<lambda>r. email r = email u) (users d)) = 1"
    using pk u(2) by (intro distinct_key_count) (simp_all add: primary_key_ok_def)
  then have one: "length (filter (\<lambda>r. email r = user_email req) (users d)) = 1"
    by (simp add: u(1))
  show ?thesis using Some same one by simp
qed

theorem create_user_idempotent_witness:
  "getitem (json alice_signup) ''email'' = Inr (JStr (user_email alice_signup))
   \<and> primary_key_ok empty_database
   \<and> filter_by_email_first (user_email alice_signup) empty_database = None
   \<and> create_user alice_signup empty_database =
       (Inr \<lparr>status = 201, body = JObj [(''message'', JStr ''User created successfully'')]\<rparr>,
        alice_only\<lparr>statements := [InsertUser alice, Commit]\<rparr>)
   \<and> primary_key_ok alice_only
   \<and> filter_by_email_first (user_email alice_signup) alice_only \<noteq> None
   \<and> create_user alice_signup alice_only =
       (Inr \<lparr>status = 200, body = JObj [(''message'', JStr ''User already exists'')]\<rparr>, alice_only)
   \<and> length (filter (\<lambda>u. email u = alice) (users (snd (create_user alice_signup alice_only)))) = 1"
  using create_user_idempotent [of alice_signup empty_database]
    create_user_idempotent [of alice_signup alice_only]
  by (simp add: sample_defs primary_key_ok_def filter_by_email_first_def)

text \<open>
  C3. For every \<open>create_user\<close> request where the body email equals the authenticated
  email and no User row with that email exists before, a following \<open>get_user\<close> for
  that email, authenticated as that identity and so passing the access check, returns
  status 200 with the body \<open>{"email": <that email>}\<close>.
\<close>

theorem create_then_get_user:
  assumes "getitem (json req) ''email'' = Inr (JStr (user_email req))"
    and "filter_by_email_first (user_email req) d = None"
    and "user_email req' = user_email req"
    and "validate (user_email req) req' = None"
  shows "get_user validate (user_email req) req' (snd (create_user req d)) =
           (Inr \<lparr>status = 200, body = JObj [(''email'', JStr (user_email req))]\<rparr>,
            snd (create_user req d))"
  using assms
  by (simp add: create_user_new get_user_def session_get_def filter_by_email_first_def
      find_append_None)

theorem create_then_get_user_witness:
  "getitem (json alice_signup) ''email'' = Inr (JStr (user_email alice_signup))
   \<and> filter_by_email_first (user_email alice_signup) empty_database = None
   \<and> user_email alice_empty_body = user_email alice_signup
   \<and> validate_user_access forbidden (user_email alice_signup) alice_empty_body = None
   \<and> get_user (validate_user_access forbidden) alice alice_empty_body
         (snd (create_user alice_signup empty_database)) =
       (Inr \<lparr>status = 200, body = JObj [(''email'', JStr alice)]\<rparr>,
        snd (create_user alice_signup empty_database))"
  using create_then_get_user [of alice_signup empty_database alice_empty_body
      "validate_user_access forbidden"]
  by (simp add: sample_defs filter_by_email_first_def validate_user_access_def)

text \<open>
  C4. For every \<open>create_user\<close> request whose body email differs from the authenticated
  identity's email, the handler returns 403 and leaves the database as it is, whether
  or not a User row with the body's email exists.
\<close>

theorem create_user_mismatch_403:
  assumes "getitem (json req) ''email'' = Inr v"
    and "v \<noteq> JStr (user_email req)"
  shows "create_user req d =
           (Inr \<lparr>status = 403,
                 body = JObj [(''message'', JStr ''Unauthorized: You can only create yourself'')]\<rparr>, d)"
  using assms by (cases v) (auto simp: create_user_def)

theorem create_user_mismatch_403_witness:
  "getitem (json alice_claims_bob) ''email'' = Inr (JStr bob)
   \<and> JStr bob \<noteq> JStr (user_email alice_claims_bob)
   \<and> filter_by_email_first bob two_users \<noteq> None
   \<and> create_user alice_claims_bob two_users =
       (Inr \<lparr>status = 403,
             body = JObj [(''message'', JStr ''Unauthorized: You can only create yourself'')]\<rparr>,
        two_users)
   \<and> filter_by_email_first bob empty_database = None
   \<and> create_user alice_claims_bob empty_database =
       (Inr \<lparr>status = 403,
             body = JObj [(''message'', JStr ''Unauthorized: You can only create yourself'')]\<rparr>,
        empty_database)"
  using create_user_mismatch_403 [of alice_claims_bob "JStr bob" two_users]
    create_user_mismatch_403 [of alice_claims_bob "JStr bob" empty_database]
  by (simp add: sample_defs filter_by_email_first_def)

text \<open>
  C5. For every \<open>get_user\<close>, \<open>update_user\<close> or \<open>delete_user\<close> request that passes the
  ownership check but targets an email with no User row, the handler returns 404 with a
  body holding a message and the requested email.
\<close>

theorem missing_user_404:
  assumes "validate path_email req = None"
    and "session_get path_email d = None"
  shows "get_user validate path_email req d =
           (Inr \<lparr>status = 404,
                 body = JObj [(''message'', JStr ''User not found''), (''email'', JStr path_email)]\<rparr>, d)
       \<and> update_user validate bind path_email req d =
           (Inr \<lparr>status = 404,
                 body = JObj [(''message'', JStr ''User not found''), (''email'', JStr path_email)]\<rparr>, d)
       \<and> delete_user validate path_email req d =
           (Inr \<lparr>status = 404,
                 body = JObj [(''message'', JStr ''User not found''), (''email'', JStr path_email)]\<rparr>, d)"
  using assms by (simp add: get_user_def update_user_def delete_user_def)

theorem missing_user_404_witness:
  "validate_user_access forbidden alice alice_signup = None
   \<and> session_get alice empty_database = None
   \<and> get_user (validate_user_access forbidden) alice alice_signup empty_database =
       (Inr \<lparr>status = 404,
             body = JObj [(''message'', JStr ''User not found''), (''email'', JStr alice)]\<rparr>,
        empty_database)"
  using missing_user_404 [of "validate_user_access forbidden" alice alice_signup empty_database
      driver_bind]
  by (simp add: sample_defs validate_user_access_def session_get_def)

text \<open>
  C6. For every authenticated \<open>get_users\<close> request and every database state, the
  response is an array with as many entries as there are User rows, and its entries are
  the objects \<open>{"email": <row email>}\<close>, one for each row, whoever asks; nothing is
  said about their order.
\<close>

theorem get_users_lists_every_row:
  "\<exists>entries. get_users req d = (Inr \<lparr>status = 200, body = JArr entries\<rparr>, d)
     \<and> length entries = length (users d)
     \<and> mset entries = image_mset (\<lambda>u. JObj [(''email'', JStr (email u))]) (mset (users d))"
  by (simp add: get_users_def query_all_def)

text \<open>
  C7. Not every \<open>update_user\<close> request that passes the ownership check and targets an
  existing row ends in 200: a body without \<open>email\<close> raises KeyError, and an email that
  another row holds raises IntegrityError at the commit; both leave the database as it
  was.
\<close>

theorem update_user_not_always_200:
  "validate_user_access forbidden alice alice_empty_body = None
   \<and> session_get alice alice_only = Some \<lparr>email = alice\<rparr>
   \<and> update_user (validate_user_access forbidden) driver_bind alice alice_empty_body alice_only =
       (Inl KeyError, alice_only)
   \<and> validate_user_access forbidden alice alice_claims_bob = None
   \<and> session_get alice two_users = Some \<lparr>email = alice\<rparr>
   \<and> update_user (validate_user_access forbidden) driver_bind alice alice_claims_bob two_users =
       (Inl IntegrityError, two_users)"
  by (simp add: sample_defs validate_user_access_def session_get_def update_user_def
      column_value_def commit_email_set)

text \<open>
  C7, as amended. For every \<open>update_user\<close> request that passes the ownership check,
  targets an existing User row, and whose body is an object with an \<open>email\<close> entry
  that the column stores as an email which is the row's own or which no User row holds,
  the handler overwrites that row's \<open>email\<close> with it (the primary key may change),
  commits once and returns 200. A string is stored as it is; the UPDATE is left out only
  when the body's email is the very string the row has.
\<close>

theorem update_user_overwrites_email:
  assumes "validate path_email req = None"
    and "session_get path_email d = Some user"
    and "getitem (json req) ''email'' = Inr v"
    and "column_value bind v = Inr e"
    and "e = path_email \<or> filter_by_email_first e d = None"
  shows "update_user validate bind path_email req d =
     (Inr \<lparr>status = 200, body = JObj [(''message'', JStr ''User updated successfully'')]\<rparr>,
      d\<lparr>users := map (\<lambda>r. if email r = path_email then r\<lparr>email := e\<rparr> else r) (users d),
        statements := statements d @ (if v = JStr path_email then [] else [UpdateUser path_email e])
                        @ [Commit]\<rparr>)"
proof -
  have key: "email user = path_email"
    using assms(2) find_Some_holds [of "\<lambda>u. email u = path_email" "users d" user]
    by (simp add: session_get_def)
  have free: "e \<noteq> path_email \<longrightarrow> \<not> list_ex (\<lambda>r. email r = e) (users d)"
    using assms(5) by (auto simp: filter_by_email_first_def find_None_list_ex)
  have stored: "v = JStr path_email \<longrightarrow> e = path_email"
    using assms(4) by (auto simp: column_value_def)
  show ?thesis
  proof (cases "v = JStr path_email")
    case True
    with stored have own: "e = path_email" by simp
    have unchanged:
      "map (\<lambda>r. if email r = path_email then r\<lparr>email := e\<rparr> else r) (users d) = users d"
      unfolding own by (rule map_rename_same)
    from True assms(1-4) key show ?thesis
      unfolding unchanged by (simp add: update_user_def commit_email_set)
  next
    case False
    with assms(1-4) key free show ?thesis
      by (auto simp: update_user_def commit_email_set)
  qed
qed

theorem update_user_overwrites_email_witness:
  "validate_user_access forbidden alice alice_renames = None
   \<and> session_get alice two_users = Some \<lparr>email = alice\<rparr>
   \<and> getitem (json alice_renames) ''email'' = Inr (JStr ''alice@example.org'')
   \<and> column_value driver_bind (JStr ''alice@example.org'') = Inr ''alice@example.org''
   \<and> filter_by_email_first ''alice@example.org'' two_users = None
   \<and> update_user (validate_user_access forbidden) driver_bind alice alice_renames two_users =
       (Inr \<lparr>status = 200, body = JObj [(''message'', JStr ''User updated successfully'')]\<rparr>,
        two_users\<lparr>users := [\<lparr>email = ''alice@example.org''\<rparr>, \<lparr>email = bob\<rparr>],
                  statements := [UpdateUser alice ''alice@example.org'', Commit]\<rparr>)
   \<and> getitem (json alice_sends_number) ''email'' = Inr (JNum 5)
   \<and> column_value driver_bind (JNum 5) = Inr ''5''
   \<and> filter_by_email_first ''5'' two_users = None
   \<and> update_user (validate_user_access forbidden) driver_bind alice alice_sends_number two_users =
       (Inr \<lparr>status = 200, body = JObj [(''message'', JStr ''User updated successfully'')]\<rparr>,
        two_users\<lparr>users := [\<lparr>email = ''5''\<rparr>, \<lparr>email = bob\<rparr>],
                  statements := [UpdateUser alice ''5'', Commit]\<rparr>)
   \<and> getitem (json alice_signup) ''email'' = Inr (JStr alice)
   \<and> update_user (validate_user_access forbidden) driver_bind alice alice_signup two_users =
       (Inr \<lparr>status = 200, body = JObj [(''message'', JStr ''User updated successfully'')]\<rparr>,
        two_users\<lparr>statements := [Commit]\<rparr>)"
  using update_user_overwrites_email [of "validate_user_access forbidden" alice alice_renames
      two_users "\<lparr>email = alice\<rparr>" "JStr ''alice@example.org''" driver_bind
      "''alice@example.org''"]
    update_user_overwrites_email [of "validate_user_access forbidden" alice alice_sends_number
      two_users "\<lparr>email = alice\<rparr>" "JNum 5" driver_bind "''5''"]
    update_user_overwrites_email [of "validate_user_access forbidden" alice alice_signup
      two_users "\<lparr>email = alice\<rparr>" "JStr alice" driver_bind alice]
  by (simp add: sample_defs validate_user_access_def session_get_def filter_by_email_first_def
      column_value_def int_text_def digit_def)

text \<open>
  The three ways the update path raises, each leaving the database as it was: the body
  has no \<open>email\<close> to read, the column cannot store its value, or another row holds
  the email.
\<close>

lemma update_user_unreadable_email_raises:
  assumes "validate path_email req = None"
    and "session_get path_email d = Some user"
    and "getitem (json req) ''email'' = Inl err"
  shows "update_user validate bind path_email req d = (Inl err, d)"
  using assms by (simp add: update_user_def)

lemma update_user_unstorable_email_raises:
  assumes "validate path_email req = None"
    and "session_get path_email d = Some user"
    and "getitem (json req) ''email'' = Inr v"
    and "column_value bind v = Inl err"
  shows "update_user validate bind path_email req d = (Inl err, d)"
  using assms by (simp add: update_user_def)

lemma update_user_taken_email_raises:
  assumes "validate path_email req = None"
    and "session_get path_email d = Some user"
    and "getitem (json req) ''email'' = Inr v"
    and "column_value bind v = Inr e"
    and "e \<noteq> path_email"
    and "filter_by_email_first e d = Some other"
  shows "update_user validate bind path_email req d = (Inl IntegrityError, d)"
proof -
  have key: "email user = path_email"
    using assms(2) find_Some_holds [of "\<lambda>u. email u = path_email" "users d" user]
    by (simp add: session_get_def)
  have taken: "list_ex (\<lambda>r. email r = e) (users d)"
    using assms(6) find_None_list_ex [of "\<lambda>r. email r = e" "users d"]
    by (simp add: filter_by_email_first_def)
  have "v \<noteq> JStr path_email"
    using assms(4,5) by (auto simp: column_value_def)
  with assms(1-5) key taken show ?thesis
    by (simp add: update_user_def commit_email_set)
qed

text \<open>
  A rename goes through while a UserWord row references the user, and that row keeps
  the old email.
\<close>

lemma update_user_rename_orphans_reference:
  "update_user (validate_user_access forbidden) driver_bind ''test@example.com''
       \<lparr>user_email = ''test@example.com'', json = JObj [(''email'', JStr ''new@example.com'')]\<rparr>
       fixture_chain =
     (Inr \<lparr>status = 200, body = JObj [(''message'', JStr ''User updated successfully'')]\<rparr>,
      fixture_chain\<lparr>users := [\<lparr>email = ''new@example.com''\<rparr>],
                     statements := [UpdateUser ''test@example.com'' ''new@example.com'', Commit]\<rparr>)
   \<and> map user_id (userwords fixture_chain) = [''test@example.com'']"
  by (simp add: sample_defs validate_user_access_def session_get_def update_user_def
      column_value_def commit_email_set)

text \<open>
  C9. Whenever a user handler (\<open>create_user\<close>, \<open>get_user\<close>, \<open>update_user\<close>,
  \<open>delete_user\<close>) returns a 403 or 404 response, the database is as it was: no row is
  added, changed or deleted and no statement or commit has been issued.
\<close>

theorem rejected_request_leaves_database:
  assumes "status r = 403 \<or> status r = 404"
  shows "(create_user req d = (Inr r, d') \<longrightarrow> d' = d)
       \<and> (get_user validate path_email req d = (Inr r, d') \<longrightarrow> d' = d)
       \<and> (update_user validate bind path_email req d = (Inr r, d') \<longrightarrow> d' = d)
       \<and> (delete_user validate path_email req d = (Inr r, d') \<longrightarrow> d' = d)"
proof (intro conjI impI)
  assume "create_user req d = (Inr r, d')"
  with assms show "d' = d"
    by (auto simp: create_user_def split: sum.splits jvalue.splits if_splits option.splits)
next
  assume "get_user validate path_email req d = (Inr r, d')"
  then show "d' = d"
    by (auto simp: get_user_def split: option.splits)
next
  assume "update_user validate bind path_email req d = (Inr r, d')"
  with assms show "d' = d"
    by (auto simp: update_user_def split: option.splits sum.splits)
next
  assume "delete_user validate path_email req d = (Inr r, d')"
  with assms show "d' = d"
    by (auto simp: delete_user_def split: option.splits sum.splits)
qed

theorem rejected_request_leaves_database_witness:
  "status \<lparr>status = 404,
           body = JObj [(''message'', JStr ''User not found''), (''email'', JStr alice)]\<rparr> = 404
   \<and> get_user (validate_user_access forbidden) alice alice_renames empty_database =
       (Inr \<lparr>status = 404,
             body = JObj [(''message'', JStr ''User not found''), (''email'', JStr alice)]\<rparr>,
        empty_database)
   \<and> update_user (validate_user_access forbidden) driver_bind alice alice_renames empty_database =
       (Inr \<lparr>status = 404,
             body = JObj [(''message'', JStr ''User not found''), (''email'', JStr alice)]\<rparr>,
        empty_database)
   \<and> delete_user (validate_user_access forbidden) alice alice_renames empty_database =
       (Inr \<lparr>status = 404,
             body = JObj [(''message'', JStr ''User not found''), (''email'', JStr alice)]\<rparr>,
        empty_database)
   \<and> status \<lparr>status = 403,
             body = JObj [(''message'', JStr ''Unauthorized: You can only create yourself'')]\<rparr> = 403
   \<and> create_user alice_renames two_users =
       (Inr \<lparr>status = 403,
             body = JObj [(''message'', JStr ''Unauthorized: You can only create yourself'')]\<rparr>,
        two_users)"
  using rejected_request_leaves_database [of "\<lparr>status = 404,
           body = JObj [(''message'', JStr ''User not found''), (''email'', JStr alice)]\<rparr>"
      alice_renames empty_database empty_database "validate_user_access forbidden" alice
      driver_bind]
    rejected_request_leaves_database [of "\<lparr>status = 403,
             body = JObj [(''message'', JStr ''Unauthorized: You can only create yourself'')]\<rparr>"
      alice_renames two_users two_users "validate_user_access forbidden" bob driver_bind]
  by (simp add: sample_defs validate_user_access_def session_get_def get_user_def update_user_def
      delete_user_def create_user_def)

text \<open>
  C10. \<open>update_user\<close> does not read \<open>data['email']\<close> unconditionally: with a body that
  lacks the key and a path email that has no row, it returns the 404 response and raises
  nothing.
\<close>

theorem update_user_missing_email_404:
  "getitem (json alice_empty_body) ''email'' = Inl KeyError
   \<and> update_user (validate_user_access forbidden) driver_bind alice alice_empty_body
         empty_database =
       (Inr \<lparr>status = 404,
             body = JObj [(''message'', JStr ''User not found''), (''email'', JStr alice)]\<rparr>,
        empty_database)"
  by (simp add: sample_defs validate_user_access_def session_get_def update_user_def)

text \<open>
  C10, as amended. \<open>create_user\<close> reads \<open>data['email']\<close> unconditionally: for every
  request whose body lacks the key \<open>email\<close> or is not an object, it raises (KeyError or
  TypeError) and returns no response. \<open>update_user\<close> reads it only after the access
  check has let the request through and the row has been found, and raises then; when
  the access check rejects the request it returns that rejection, and when the row is
  missing it returns 404. The database is left as it was in every case.
\<close>

theorem missing_email_raises:
  assumes "getitem (json req) ''email'' = Inl err"
  shows "create_user req d = (Inl err, d)
       \<and> (validate path_email req = None \<and> session_get path_email d \<noteq> None \<longrightarrow>
            update_user validate bind path_email req d = (Inl err, d))
       \<and> (validate path_email req = Some r \<longrightarrow>
            update_user validate bind path_email req d = (Inr r, d))
       \<and> (validate path_email req = None \<and> session_get path_email d = None \<longrightarrow>
            update_user validate bind path_email req d =
              (Inr \<lparr>status = 404,
                    body = JObj [(''message'', JStr ''User not found''), (''email'', JStr path_email)]\<rparr>, d))"
  using assms by (auto simp: create_user_def update_user_def)

theorem missing_email_raises_witness:
  "getitem (json alice_empty_body) ''email'' = Inl KeyError
   \<and> create_user alice_empty_body alice_only = (Inl KeyError, alice_only)
   \<and> validate_user_access forbidden alice alice_empty_body = None
   \<and> session_get alice alice_only \<noteq> None
   \<and> update_user (validate_user_access forbidden) driver_bind alice alice_empty_body alice_only =
       (Inl KeyError, alice_only)
   \<and> validate_user_access forbidden bob alice_empty_body =
       Some \<lparr>status = 403, body = JObj [(''message'', JStr forbidden)]\<rparr>
   \<and> update_user (validate_user_access forbidden) driver_bind bob alice_empty_body alice_only =
       (Inr \<lparr>status = 403, body = JObj [(''message'', JStr forbidden)]\<rparr>, alice_only)
   \<and> session_get alice empty_database = None
   \<and> update_user (validate_user_access forbidden) driver_bind alice alice_empty_body
         empty_database =
       (Inr \<lparr>status = 404,
             body = JObj [(''message'', JStr ''User not found''), (''email'', JStr alice)]\<rparr>,
        empty_database)"
  using missing_email_raises [of alice_empty_body KeyError alice_only
      "validate_user_access forbidden" alice driver_bind]
    missing_email_raises [of alice_empty_body KeyError alice_only
      "validate_user_access forbidden" bob driver_bind
      "\<lparr>status = 403, body = JObj [(''message'', JStr forbidden)]\<rparr>"]
    missing_email_raises [of alice_empty_body KeyError empty_database
      "validate_user_access forbidden" alice driver_bind]
  by (simp add: sample_defs validate_user_access_def session_get_def)

section \<open>Results on the test cleanup\<close>

text \<open>
  C8. \<open>clear_database\<close> issues its bulk deletes in the order RecallHistory, UserWord,
  Word, Wordset, User and then one commit, and in that order no delete meets a row that
  still references what it removes: from every database state, so also when all five
  tables hold the rows of one fixture chain, it raises nothing and leaves the five
  tables empty.
\<close>

theorem clear_database_dependency_order:
  "clear_database d =
     (Inr (), \<lparr>users = [], wordsets = [], words = [], userwords = [], recall_history = [],
       statements = statements d @ [DeleteAll RecallHistoryT, DeleteAll UserWordT, DeleteAll WordT,
          DeleteAll WordsetT, DeleteAll UserT, Commit]\<rparr>)"
  by (simp add: clear_database_def and_then_def new_session_def session_commit_def)

text \<open>
  The order matters: on the fixture chain, a bulk delete of a parent table before its
  children is refused.
\<close>

lemma parents_first_fails_on_fixture_chain:
  "query_delete UserT (new_session fixture_chain) = Inl IntegrityError
   \<and> query_delete WordsetT (new_session fixture_chain) = Inl IntegrityError
   \<and> query_delete WordT (new_session fixture_chain) = Inl IntegrityError
   \<and> query_delete UserWordT (new_session fixture_chain) = Inl IntegrityError"
  by (simp add: new_session_def fixture_chain_def)

lemma clear_database_fixture_chain:
  "clear_database fixture_chain =
     (Inr (), empty_database\<lparr>statements := [DeleteAll RecallHistoryT, DeleteAll UserWordT,
        DeleteAll WordT, DeleteAll WordsetT, DeleteAll UserT, Commit]\<rparr>)"
  by (simp add: clear_database_def and_then_def new_session_def session_commit_def
      fixture_chain_def empty_database_def)

end
